theory Spec2Isabelle
  imports Complex_Main
begin

section \<open>A particle filter for 2D localisation: the model\<close>

text \<open>
  The program is \<^verbatim>\<open>src/particle_filter.cpp\<close>. Its numbers are C++ \<^verbatim>\<open>float\<close>s (IEEE
  binary32). Except where it says otherwise, the model computes with \<^typ>\<open>real\<close>, that
  is, with the arithmetic the code writes down and no rounding, overflow or underflow; what
  is concluded from such a definition is limited to what rounding does not change: the
  shape of the result, sizes, which particles are copied, which values are overwritten,
  signs, and comparisons at inputs away from the threshold. Where one rounding decides an
  outcome it is modelled: \<open>TWO_PI\<close> is the binary32 number the program holds, and the
  addition that corrects a negative heading rounds to binary32 (\<open>fl32\<close>).

  A float division by zero gives an infinity or a NaN, which no real number stands for.
  The program has two: the quotients of \<^verbatim>\<open>estimateState\<close> on an empty population, which
  the model returns as a value of its own (\<open>NaNPose\<close>), and the constants of
  \<^verbatim>\<open>calculateWeights\<close> when the measurement deviation is 0, where the model follows
  HOL's \<open>x / 0 = 0\<close> and says nothing about the program. Reading a \<^verbatim>\<open>std::vector\<close> past
  its end is undefined behaviour in C++; the model stops there with a \<open>fault\<close>. The code
  throws no exception anywhere.
\<close>

subsection \<open>Float arithmetic and the library functions the code calls\<close>

text \<open>
  Rounding to binary32, to nearest with ties to even: \<open>rne\<close> rounds to an integer, and
  \<open>fl32 v\<close> rounds \<open>v\<close> to a multiple of the unit in the last place of its binade,
  \<open>2 ^ (e - 23)\<close> for \<open>2 ^ e \<le> |v| < 2 ^ (e + 1)\<close>, and of \<open>2 ^ (- 149)\<close> below the normal
  range. Overflow is not modelled: \<open>fl32 v\<close> is the float result whenever that is finite.
\<close>

definition rne :: "real \<Rightarrow> int" where
  "rne v =
     (let f = floor v
      in if v - of_int f < 1 / 2 then f
         else if 1 / 2 < v - of_int f then f + 1
         else if even f then f else f + 1)"

definition fl32 :: "real \<Rightarrow> real" where
  "fl32 v =
     (if v = 0 then 0
      else let e = max (floor (log 2 \<bar>v\<bar>)) (- 126);
               u = 2 powr (of_int e - 23)
           in of_int (rne (v / u)) * u)"

text \<open>
  \<^verbatim>\<open>constexpr float TWO_PI = 2.0f * M_PI;\<close> The product is formed in double precision
  and converted to \<^verbatim>\<open>float\<close>: it is the binary32 number
  \<open>13176795 * 2 ^ (- 21) = 6.2831854820251465\<close>, which lies above \<open>2 pi\<close>.
\<close>

definition TWO_PI :: real where
  "TWO_PI = 13176795 / 2097152"

text \<open>
  C's \<^verbatim>\<open>fmod(a, b)\<close> is \<open>a - n * b\<close> with \<open>n\<close> the quotient \<open>a / b\<close> truncated towards
  zero, so the result has the sign of \<open>a\<close>.
\<close>

definition fmod :: "real \<Rightarrow> real \<Rightarrow> real" where
  "fmod a b = a - b * of_int (if 0 \<le> a / b then floor (a / b) else ceiling (a / b))"

text \<open>
  C's \<^verbatim>\<open>atan2(y, x)\<close>: the angle of the point \<open>(x, y)\<close>, in \<open>(-pi, pi]\<close>; \<open>atan2(0, 0)\<close>
  is \<open>0\<close>.
\<close>

definition atan2 :: "real \<Rightarrow> real \<Rightarrow> real" where
  "atan2 b a =
     (if 0 < a then arctan (b / a)
      else if a < 0 then (if 0 \<le> b then arctan (b / a) + pi else arctan (b / a) - pi)
      else if 0 < b then pi / 2
      else if b < 0 then - (pi / 2)
      else 0)"

text \<open>
  The random engine \<^verbatim>\<open>gen_\<close> is a stream of raw variates; a distribution applied to it
  consumes the head of the stream. \<^verbatim>\<open>std::normal_distribution<float>(m, s)\<close> reads the
  variate as a standard normal one and returns \<open>m + s * z\<close>.
  \<^verbatim>\<open>std::discrete_distribution<int>\<close> over weights \<open>ws\<close> reads it as a uniform one \<open>u\<close>
  and returns the first index whose cumulative weight exceeds \<open>u * sum ws\<close>, so index
  \<open>i\<close> is drawn with probability \<open>ws ! i / sum ws\<close>; the value is always below the number
  of weights (below 1 when there are none), as the library promises.
\<close>

type_synonym rng = "nat \<Rightarrow> real"

definition advance :: "rng \<Rightarrow> rng" where
  "advance g = (\<lambda>n. g (Suc n))"

definition normal_distribution :: "real \<Rightarrow> real \<Rightarrow> rng \<Rightarrow> real \<times> rng" where
  "normal_distribution m s g = (m + s * g 0, advance g)"

fun pick :: "real list \<Rightarrow> real \<Rightarrow> nat" where
  "pick [] t = 0"
| "pick [w] t = 0"
| "pick (w # ws) t = (if t < w then 0 else Suc (pick ws (t - w)))"

definition discrete_distribution :: "real list \<Rightarrow> rng \<Rightarrow> nat \<times> rng" where
  "discrete_distribution ws g = (pick ws (g 0 * sum_list ws), advance g)"

subsection \<open>Data\<close>

text \<open>
  \<^verbatim>\<open>Particle\<close> is declared in the header; the initialiser
  \<^verbatim>\<open>Particle p{x, y, theta, weight}\<close> in \<^verbatim>\<open>initializeParticles\<close> gives its fields.
\<close>

record Particle =
  px :: real
  py :: real
  ptheta :: real
  pweight :: real

text \<open>A landmark is an \<^verbatim>\<open>Eigen::Vector2f\<close>: the pair \<open>(lm[0], lm[1])\<close>.\<close>

type_synonym landmark = "real \<times> real"

text \<open>
  The state of a \<^verbatim>\<open>ParticleFilter\<close>. The members \<^verbatim>\<open>dist_pos_\<close> and \<^verbatim>\<open>dist_rot_\<close> are
  the normal distributions with mean 0 and deviations \<open>sigma_pos\<close> and \<open>sigma_rot\<close>.
\<close>

record ParticleFilter =
  sigma_pos :: real
  sigma_rot :: real
  sigma_sense :: real
  particles :: "Particle list"
  gen :: rng

record Robot =
  robot_x :: real
  robot_y :: real
  robot_theta :: real
  robot_sigma_pos :: real
  robot_sigma_rot :: real
  robot_sigma_sense :: real
  robot_gen :: rng

datatype fault = OutOfBounds

text \<open>
  What \<^verbatim>\<open>estimateState\<close> returns: a pose, or the vector of three NaNs.
\<close>

datatype estimate = Pose real real real | NaNPose

subsection \<open>Construction and initialisation\<close>

text \<open>
  \<^verbatim>\<open>Robot::Robot(sigma_pos, sigma_rot, sigma_sense, x, y, theta)\<close>: the member
  initialisers of the three deviations are the literals \<open>0.1f\<close>, \<open>0.05f\<close>, \<open>0.05f\<close>.
  In both constructors the last argument of the model is the state in which the
  engine \<^verbatim>\<open>gen_\<close> starts.
\<close>

definition Robot_ctor :: "real \<Rightarrow> real \<Rightarrow> real \<Rightarrow> real \<Rightarrow> real \<Rightarrow> real \<Rightarrow> rng \<Rightarrow> Robot" where
  "Robot_ctor sigma_pos' sigma_rot' sigma_sense' x0 y0 theta0 g =
     \<lparr>robot_x = x0, robot_y = y0, robot_theta = theta0,
      robot_sigma_pos = 1 / 10, robot_sigma_rot = 5 / 100, robot_sigma_sense = 5 / 100,
      robot_gen = g\<rparr>"

definition ParticleFilter_ctor :: "real \<Rightarrow> real \<Rightarrow> real \<Rightarrow> rng \<Rightarrow> ParticleFilter" where
  "ParticleFilter_ctor sigma_pos' sigma_rot' sigma_sense' g =
     \<lparr>sigma_pos = sigma_pos', sigma_rot = sigma_rot', sigma_sense = sigma_sense',
      particles = [], gen = g\<rparr>"

text \<open>
  The loop of \<^verbatim>\<open>initializeParticles\<close>, \<open>k\<close> iterations left: three draws in the order
  x, y, theta, then \<^verbatim>\<open>push_back\<close>.
\<close>

fun init_loop :: "real \<Rightarrow> real \<Rightarrow> real \<Rightarrow> int \<Rightarrow> nat \<Rightarrow> ParticleFilter \<Rightarrow> ParticleFilter" where
  "init_loop robot_x' robot_y' robot_theta' num_particles 0 pf = pf"
| "init_loop robot_x' robot_y' robot_theta' num_particles (Suc k) pf =
     (let (vx, g1) = normal_distribution robot_x' (sigma_pos pf) (gen pf);
          (vy, g2) = normal_distribution robot_y' (sigma_pos pf) g1;
          (vt, g3) = normal_distribution robot_theta' (sigma_rot pf) g2;
          p = \<lparr>px = vx, py = vy, ptheta = vt, pweight = 1 / of_int num_particles\<rparr>
      in init_loop robot_x' robot_y' robot_theta' num_particles k
           (pf\<lparr>particles := particles pf @ [p], gen := g3\<rparr>))"

text \<open>
  \<^verbatim>\<open>for (int i{0}; i < num_particles; ++i)\<close> runs \<open>num_particles\<close> times, and not at all
  when \<open>num_particles \<le> 0\<close>.
\<close>

definition initializeParticles ::
    "real \<Rightarrow> real \<Rightarrow> real \<Rightarrow> int \<Rightarrow> ParticleFilter \<Rightarrow> ParticleFilter" where
  "initializeParticles robot_x' robot_y' robot_theta' num_particles pf =
     init_loop robot_x' robot_y' robot_theta' num_particles (nat num_particles) pf"

subsection \<open>Prediction\<close>

text \<open>
  \<^verbatim>\<open>moveParticle\<close>: one draw of \<^verbatim>\<open>dist_pos_\<close>, the position update with the old
  heading, one draw of \<^verbatim>\<open>dist_rot_\<close>, then \<^verbatim>\<open>fmod\<close> (exact in binary32) and the
  correction of a negative remainder, \<^verbatim>\<open>p.theta += TWO_PI\<close>, a float addition. The filter
  is returned with its engine advanced.
\<close>

definition moveParticle ::
    "ParticleFilter \<Rightarrow> Particle \<Rightarrow> real \<Rightarrow> real \<Rightarrow> Particle \<times> ParticleFilter" where
  "moveParticle pf p distance rotation =
     (let (n1, g1) = normal_distribution 0 (sigma_pos pf) (gen pf);
          noisy_distance = distance + n1;
          x1 = px p + noisy_distance * cos (ptheta p);
          y1 = py p + noisy_distance * sin (ptheta p);
          (n2, g2) = normal_distribution 0 (sigma_rot pf) g1;
          noisy_rotation = rotation + n2;
          t1 = fmod (ptheta p + noisy_rotation) TWO_PI;
          t2 = (if t1 < 0 then fl32 (t1 + TWO_PI) else t1)
      in (p\<lparr>px := x1, py := y1, ptheta := t2\<rparr>, pf\<lparr>gen := g2\<rparr>))"

fun move_loop ::
    "ParticleFilter \<Rightarrow> Particle list \<Rightarrow> real \<Rightarrow> real \<Rightarrow> Particle list \<times> ParticleFilter" where
  "move_loop pf [] distance rotation = ([], pf)"
| "move_loop pf (p # ps) distance rotation =
     (let (p1, pf1) = moveParticle pf p distance rotation;
          (ps1, pf2) = move_loop pf1 ps distance rotation
      in (p1 # ps1, pf2))"

definition updateMotion :: "ParticleFilter \<Rightarrow> real \<Rightarrow> real \<Rightarrow> ParticleFilter" where
  "updateMotion pf distance rotation =
     (let (ps1, pf1) = move_loop pf (particles pf) distance rotation
      in pf1\<lparr>particles := ps1\<rparr>)"

subsection \<open>Weighting\<close>

definition gauss_norm :: "real \<Rightarrow> real" where
  "gauss_norm s = 1 / sqrt (2 * pi * s * s)"

definition denom :: "real \<Rightarrow> real" where
  "denom s = 2 * s * s"

text \<open>
  The inner loop of \<^verbatim>\<open>calculateWeights\<close> for one particle, at landmark index \<open>i\<close> with
  the product \<open>w\<close> so far. \<^verbatim>\<open>measurements[i]\<close> is unchecked: past the end of the
  measurement vector the read is a fault.
\<close>

function weight_loop ::
    "real \<Rightarrow> real list \<Rightarrow> landmark list \<Rightarrow> Particle \<Rightarrow> nat \<Rightarrow> real \<Rightarrow> fault + real" where
  "weight_loop s measurements landmarks p i w =
     (if i < length landmarks then
        (if i < length measurements then
           (let lm = landmarks ! i;
                expected = sqrt ((fst lm - px p) * (fst lm - px p)
                                  + (snd lm - py p) * (snd lm - py p));
                diff = measurements ! i - expected
            in weight_loop s measurements landmarks p (Suc i)
                 (w * (gauss_norm s * exp (- (diff * diff) / denom s))))
         else Inl OutOfBounds)
      else Inr w)"
  by pat_completeness auto
termination
  by (relation "measure (\<lambda>(s, ms, lms, p, i, w). length lms - i)") auto

declare weight_loop.simps [simp del]

text \<open>The likelihood product of one particle: the inner loop from \<open>weight = 1\<close>.\<close>

definition likelihood :: "real \<Rightarrow> real list \<Rightarrow> landmark list \<Rightarrow> Particle \<Rightarrow> fault + real" where
  "likelihood s measurements landmarks p = weight_loop s measurements landmarks p 0 1"

text \<open>
  The outer loop: each particle gets its product as weight, and \<open>total_weight\<close>
  accumulates them. The products and the total are formed exactly here. In the program
  a product can underflow to 0 and the running total rounds, so the test
  \<^verbatim>\<open>total_weight > 0.0f\<close> can fail there for a population that has a positive total
  here, and the normalised weights add up to 1 only up to the rounding accumulated in the
  total.
\<close>

fun score_loop ::
    "real \<Rightarrow> real list \<Rightarrow> landmark list \<Rightarrow> Particle list \<Rightarrow> real
      \<Rightarrow> fault + (Particle list \<times> real)" where
  "score_loop s measurements landmarks [] total_weight = Inr ([], total_weight)"
| "score_loop s measurements landmarks (p # ps) total_weight =
     (case likelihood s measurements landmarks p of
        Inl e \<Rightarrow> Inl e
      | Inr w \<Rightarrow>
          (case score_loop s measurements landmarks ps (total_weight + w) of
             Inl e \<Rightarrow> Inl e
           | Inr (ps1, t) \<Rightarrow> Inr (p\<lparr>pweight := w\<rparr> # ps1, t)))"

definition calculateWeights ::
    "ParticleFilter \<Rightarrow> real list \<Rightarrow> landmark list \<Rightarrow> fault + ParticleFilter" where
  "calculateWeights pf measurements landmarks =
     (case score_loop (sigma_sense pf) measurements landmarks (particles pf) 0 of
        Inl e \<Rightarrow> Inl e
      | Inr (ps1, total_weight) \<Rightarrow>
          Inr (pf\<lparr>particles :=
                     (if 0 < total_weight
                      then map (\<lambda>p. p\<lparr>pweight := pweight p / total_weight\<rparr>) ps1
                      else ps1)\<rparr>))"

subsection \<open>Resampling\<close>

text \<open>
  The loop of \<^verbatim>\<open>resampleParticles\<close>, \<open>k\<close> iterations left: draw an index, copy
  \<^verbatim>\<open>particles_[index]\<close> (unchecked in the source) to the end of \<open>new_particles\<close>.
\<close>

fun resample_loop ::
    "Particle list \<Rightarrow> real list \<Rightarrow> nat \<Rightarrow> Particle list \<Rightarrow> rng
      \<Rightarrow> fault + (Particle list \<times> rng)" where
  "resample_loop ps weights 0 new_particles g = Inr (new_particles, g)"
| "resample_loop ps weights (Suc k) new_particles g =
     (let (index, g1) = discrete_distribution weights g
      in if index < length ps
         then resample_loop ps weights k (new_particles @ [ps ! index]) g1
         else Inl OutOfBounds)"

definition resampleParticles :: "ParticleFilter \<Rightarrow> fault + ParticleFilter" where
  "resampleParticles pf =
     (let weights = map pweight (particles pf)
      in case resample_loop (particles pf) weights (length (particles pf)) [] (gen pf) of
           Inl e \<Rightarrow> Inl e
         | Inr (new_particles, g1) \<Rightarrow> Inr (pf\<lparr>particles := new_particles, gen := g1\<rparr>))"

subsection \<open>Estimation and the filter step\<close>

text \<open>
  \<^verbatim>\<open>estimateState\<close>: four running sums, each divided by \<^verbatim>\<open>particles_.size()\<close>. With no
  particle the sums and the size are 0 and each quotient, hence each component, is NaN.
  The sums and quotients are float operations; the model forms them exactly, so the
  components of a returned pose are those of the program only up to rounding.
\<close>

definition estimateState :: "ParticleFilter \<Rightarrow> estimate" where
  "estimateState pf =
     (let ps = particles pf;
          sum_x = fold (\<lambda>p acc. acc + px p) ps 0;
          sum_y = fold (\<lambda>p acc. acc + py p) ps 0;
          sum_sin = fold (\<lambda>p acc. acc + sin (ptheta p)) ps 0;
          sum_cos = fold (\<lambda>p acc. acc + cos (ptheta p)) ps 0;
          n = length ps
      in if n = 0 then NaNPose
         else Pose (sum_x / real n) (sum_y / real n)
                   (atan2 (sum_sin / real n) (sum_cos / real n)))"

text \<open>
  The effective sample size of \<^verbatim>\<open>updateAndEstimate\<close>:
  \<^verbatim>\<open>1.0f / (total_weight_squared + 1e-6f)\<close>.
\<close>

definition Neff :: "Particle list \<Rightarrow> real" where
  "Neff ps = 1 / (fold (\<lambda>p acc. acc + pweight p * pweight p) ps 0 + 1 / 1000000)"

text \<open>
  \<^verbatim>\<open>updateAndEstimate\<close>. In \<^verbatim>\<open>Neff < particles_.size() / 2\<close> the right-hand side is a
  division of unsigned integers.
\<close>

definition updateAndEstimate ::
    "ParticleFilter \<Rightarrow> real \<Rightarrow> real \<Rightarrow> real list \<Rightarrow> landmark list
      \<Rightarrow> fault + (estimate \<times> ParticleFilter)" where
  "updateAndEstimate pf distance rotation measurements landmarks =
     (let pf1 = updateMotion pf distance rotation
      in case calculateWeights pf1 measurements landmarks of
           Inl e \<Rightarrow> Inl e
         | Inr pf2 \<Rightarrow>
             (case (if Neff (particles pf2) < real (length (particles pf2) div 2)
                    then resampleParticles pf2 else Inr pf2) of
                Inl e \<Rightarrow> Inl e
              | Inr pf3 \<Rightarrow> Inr (estimateState pf3, pf3)))"

subsection \<open>A filter state with an odd number of particles\<close>

text \<open>
  Three particles on the x axis, one at the origin and two at \<open>x = 3\<close>, in a filter with
  measurement deviation 1 whose engine yields the variate 0 at every draw.
\<close>

definition three_particles :: ParticleFilter where
  "three_particles = \<lparr>sigma_pos = 1 / 10, sigma_rot = 5 / 100, sigma_sense = 1,
      particles = [\<lparr>px = 0, py = 0, ptheta = 0, pweight = 1 / 3\<rparr>,
                   \<lparr>px = 3, py = 0, ptheta = 0, pweight = 1 / 3\<rparr>,
                   \<lparr>px = 3, py = 0, ptheta = 0, pweight = 1 / 3\<rparr>],
      gen = (\<lambda>i. 0)\<rparr>"

section \<open>Auxiliary facts\<close>

subsection \<open>Binary32 rounding and the constant \<open>TWO_PI\<close>\<close>

lemma fl32_binade:
  assumes "2 powr of_int e \<le> \<bar>v\<bar>" and "\<bar>v\<bar> < 2 powr (of_int e + 1)" and "- 126 \<le> e"
  shows "fl32 v = of_int (rne (v / 2 powr (of_int e - 23))) * 2 powr (of_int e - 23)"
proof -
  have p: "0 < \<bar>v\<bar>" using assms(1) by (rule less_le_trans[rotated]) simp
  then have v: "v \<noteq> 0" by auto
  have "of_int e \<le> log 2 \<bar>v\<bar>" using assms(1) p by (simp add: le_log_iff)
  moreover have "log 2 \<bar>v\<bar> < of_int e + 1" using assms(2) p by (simp add: log_less_iff)
  ultimately have "floor (log 2 \<bar>v\<bar>) = e" by (simp add: floor_eq_iff)
  then show ?thesis using v assms(3) by (simp add: fl32_def Let_def max_def)
qed

lemma rne_near_above:
  assumes "of_int k - 1 / 2 < v" and "v \<le> of_int k"
  shows "rne v = k"
proof (cases "v = of_int k")
  case True
  then show ?thesis by (simp add: rne_def)
next
  case False
  then have lt: "v < of_int k" using assms(2) by simp
  have "of_int (k - 1) \<le> v" using assms(1) by simp
  moreover have "v < of_int (k - 1) + 1" using lt by simp
  ultimately have f: "floor v = k - 1" by (simp add: floor_eq_iff)
  show ?thesis using assms(1) by (simp add: rne_def f Let_def)
qed

lemma fl32_below_TWO_PI: "fl32 (- (1 / 2 ^ 34) + TWO_PI) = TWO_PI"
proof -
  let ?v = "- (1 / 2 ^ 34) + TWO_PI :: real"
  have b: "2 powr of_int 2 \<le> \<bar>?v\<bar>" "\<bar>?v\<bar> < 2 powr (of_int 2 + 1)"
    by (simp_all add: TWO_PI_def)
  have u: "2 powr (of_int 2 - 23) = (1 / 2097152 :: real)"
    by (simp add: powr_minus_divide)
  have r: "rne (?v / (1 / 2097152)) = 13176795"
    by (rule rne_near_above) (simp_all add: TWO_PI_def)
  have "fl32 ?v = of_int (rne (?v / 2 powr (of_int 2 - 23))) * 2 powr (of_int 2 - 23)"
    by (rule fl32_binade[OF b]) simp
  also have "\<dots> = of_int 13176795 * (1 / 2097152)" unfolding u r ..
  also have "\<dots> = TWO_PI" by (simp add: TWO_PI_def)
  finally show ?thesis .
qed


lemma rne_nonneg: "0 \<le> v \<Longrightarrow> 0 \<le> rne v"
  by (simp add: rne_def Let_def)

lemma rne_le:
  assumes "v \<le> of_int m"
  shows "rne v \<le> m"
proof (cases "v = of_int m")
  case True
  then show ?thesis by (simp add: rne_def)
next
  case False
  then have "v < of_int m" using assms by simp
  then have "floor v < m" by (simp add: floor_less_iff)
  then show ?thesis by (simp add: rne_def Let_def)
qed

lemma fl32_range_TWO_PI:
  assumes "0 < v" and "v < TWO_PI"
  shows "0 \<le> fl32 v \<and> fl32 v \<le> TWO_PI"
proof -
  define e where "e = max (floor (log 2 \<bar>v\<bar>)) (- 126)"
  define u :: real where "u = 2 powr (of_int e - 23)"
  have u0: "0 < u" by (simp add: u_def)
  have f: "fl32 v = of_int (rne (v / u)) * u"
    using assms(1) by (simp add: fl32_def Let_def e_def u_def)
  have "v < 2 powr 3" using assms(2) by (simp add: TWO_PI_def)
  then have "log 2 \<bar>v\<bar> < 3" using assms(1) by (simp add: log_less_iff)
  then have "floor (log 2 \<bar>v\<bar>) < 3" by (simp add: floor_less_iff)
  then have e2: "e \<le> 2" by (simp add: e_def)
  define m :: int where "m = 13176795 * 2 ^ nat (2 - e)"
  have "2 powr (of_int (2 - e)) = (2 :: real) ^ nat (2 - e)"
    using e2 powr_real_of_int[of "2 :: real" "2 - e"] by simp
  moreover have "(2 :: real) powr (of_int (2 - e)) = 2 powr (- 21) / u"
    by (simp add: u_def powr_diff [symmetric])
  ultimately have mu: "of_int m * u = TWO_PI"
    using u0 by (simp add: m_def TWO_PI_def powr_minus_divide field_simps)
  have "v / u \<le> of_int m"
    using assms(2) u0 unfolding mu [symmetric] by (simp add: field_simps)
  then have "rne (v / u) \<le> m" by (rule rne_le)
  then have "of_int (rne (v / u)) * u \<le> of_int m * u"
    using u0 by (intro mult_right_mono) simp_all
  moreover have "0 \<le> rne (v / u)" using assms(1) u0 by (intro rne_nonneg) simp
  ultimately show ?thesis using u0 unfolding f mu by simp
qed

lemma sum_lessThan_numeral:
  "(\<Sum>m<numeral k. f m) = (\<Sum>m<pred_numeral k. f m) + (f (pred_numeral k) :: real)"
  by (simp add: numeral_eq_Suc)

lemma cos_poly_sym: "(\<Sum>m<16. cos_coeff m * (y::real) ^ m)
   = 1 - y^2 / 2 + y^4 / 24 - y^6 / 720 + y^8 / 40320 - y^10 / 3628800 + y^12 / 479001600 - y^14 / 87178291200"
  by (simp add: sum_lessThan_numeral cos_coeff_def fact_numeral)

lemma cos_poly_val:
  "1 - y^2 / 2 + y^4 / 24 - y^6 / 720 + y^8 / 40320 - y^10 / 3628800 + y^12 / 479001600
     - y^14 / 87178291200 + y^16 / 20922789888000 < 0" if "y = (13176795 / 8388608 :: real)"
  unfolding that by (simp add: power_divide)

lemma two_pi_less_TWO_PI: "2 * pi < TWO_PI"
proof -
  define y :: real where "y = 13176795 / 8388608"
  obtain t where c: "cos y = (\<Sum>m<16. cos_coeff m * y ^ m) + (cos (t + 1/2 * real (16::nat) * pi) / fact 16) * y ^ 16"
    using Maclaurin_cos_expansion[of y 16] by blast
  have y0: "0 \<le> y" by (simp add: y_def)
  have "cos (t + 1/2 * real (16::nat) * pi) \<le> 1" by (rule cos_le_one)
  then have "(cos (t + 1/2 * real (16::nat) * pi) / fact 16) * y ^ 16 \<le> (1 / fact 16) * y ^ 16"
    using y0 by (intro mult_right_mono divide_right_mono) simp_all
  also have "\<dots> = y ^ 16 / 20922789888000" by (simp add: fact_numeral)
  finally have "cos y \<le> (\<Sum>m<16. cos_coeff m * y ^ m) + y ^ 16 / 20922789888000"
    unfolding c by simp
  then have "cos y < 0" using cos_poly_val[OF y_def] unfolding cos_poly_sym by linarith
  have "pi / 2 < y"
  proof (rule ccontr)
    assume "\<not> pi / 2 < y"
    then have "y \<le> pi / 2" by simp
    then have "0 \<le> cos y" using y0 by (intro cos_ge_zero) simp_all
    with \<open>cos y < 0\<close> show False by simp
  qed
  then show ?thesis by (simp add: y_def TWO_PI_def)
qed

subsection \<open>Initialisation\<close>

lemma init_loop_length: "length (particles (init_loop a b c n k pf)) = length (particles pf) + k"
  by (induction k arbitrary: pf) (simp_all add: normal_distribution_def Let_def)

lemma init_loop_take: "take (length (particles pf)) (particles (init_loop a b c n k pf)) = particles pf"
proof (induction k arbitrary: pf)
  case 0 show ?case by simp
next
  case (Suc k)
  let ?pf1 = "pf\<lparr>particles := particles pf @ [\<lparr>px = a + sigma_pos pf * gen pf 0, py = b + sigma_pos pf * advance (gen pf) 0,
     ptheta = c + sigma_rot pf * advance (advance (gen pf)) 0, pweight = 1 / of_int n\<rparr>], gen := advance (advance (advance (gen pf)))\<rparr>"
  have "take (length (particles ?pf1)) (particles (init_loop a b c n k ?pf1)) = particles ?pf1"
    by (rule Suc.IH)
  then have "take (length (particles pf)) (take (length (particles ?pf1)) (particles (init_loop a b c n k ?pf1))) = take (length (particles pf)) (particles ?pf1)"
    by simp
  then show ?case by (simp add: normal_distribution_def Let_def min_def)
qed

subsection \<open>Headings after a move\<close>

lemma fmod_nonneg: "0 < b \<Longrightarrow> 0 \<le> a \<Longrightarrow> 0 \<le> fmod a b \<and> fmod a b < b"
proof -
  assume b: "0 < b" and a: "0 \<le> a"
  have q: "0 \<le> a / b" using a b by simp
  have e: "a / b * b = a" using b by simp
  have "of_int (floor (a / b)) * b \<le> a / b * b"
    using b by (intro mult_right_mono) simp_all
  then have 1: "of_int (floor (a / b)) * b \<le> a" unfolding e .
  have "a / b * b < (of_int (floor (a / b)) + 1) * b"
    using b by (intro mult_strict_right_mono) linarith+
  then have 2: "a < (of_int (floor (a / b)) + 1) * b" unfolding e .
  show ?thesis using q 1 2 by (simp add: fmod_def algebra_simps)
qed

lemma fmod_neg: "0 < b \<Longrightarrow> a < 0 \<Longrightarrow> - b < fmod a b \<and> fmod a b \<le> 0"
proof -
  assume b: "0 < b" and a: "a < 0"
  have q: "\<not> 0 \<le> a / b" using a b by (simp add: divide_less_0_iff not_le)
  have e: "a / b * b = a" using b by simp
  have "a / b * b \<le> of_int (ceiling (a / b)) * b"
    using b by (intro mult_right_mono) simp_all
  then have 1: "a \<le> of_int (ceiling (a / b)) * b" unfolding e .
  have "(of_int (ceiling (a / b)) - 1) * b < a / b * b"
    using b by (intro mult_strict_right_mono) linarith+
  then have 2: "(of_int (ceiling (a / b)) - 1) * b < a" unfolding e .
  show ?thesis using q 1 2 by (simp add: fmod_def algebra_simps)
qed

lemma fmod_TWO_PI_bounds: "- TWO_PI < fmod a TWO_PI \<and> fmod a TWO_PI < TWO_PI"
proof -
  have b: "0 < TWO_PI" by (simp add: TWO_PI_def)
  show ?thesis
    using fmod_nonneg[OF b, of a] fmod_neg[OF b, of a] b by (cases "0 \<le> a") auto
qed

lemma fmod_small: "0 \<le> a \<Longrightarrow> a < b \<Longrightarrow> fmod a b = a"
proof -
  assume a: "0 \<le> a" "a < b"
  then have "0 \<le> a / b" "a / b < 1" by simp_all
  then have "floor (a / b) = 0" by (simp add: floor_eq_iff)
  with \<open>0 \<le> a / b\<close> show ?thesis by (simp add: fmod_def)
qed

lemma fmod_small_neg: "- b < a \<Longrightarrow> a < 0 \<Longrightarrow> fmod a b = a"
proof -
  assume a: "- b < a" "a < 0"
  then have b: "0 < b" by simp
  have "- 1 < a / b" using a b by (simp add: less_divide_eq)
  moreover have "a / b < 0" using a b by (simp add: divide_less_0_iff)
  ultimately have "ceiling (a / b) = 0" by (simp add: ceiling_eq_iff)
  with \<open>a / b < 0\<close> show ?thesis by (simp add: fmod_def)
qed

lemma moveParticle_heading_range:
  "0 \<le> ptheta (fst (moveParticle pf p distance rotation))
   \<and> ptheta (fst (moveParticle pf p distance rotation)) \<le> TWO_PI"
proof -
  define a where "a = ptheta p + (rotation + (0 + sigma_rot pf * advance (gen pf) 0))"
  have t: "ptheta (fst (moveParticle pf p distance rotation))
            = (if fmod a TWO_PI < 0 then fl32 (fmod a TWO_PI + TWO_PI) else fmod a TWO_PI)"
    by (simp add: moveParticle_def normal_distribution_def Let_def a_def)
  show ?thesis
  proof (cases "fmod a TWO_PI < 0")
    case True
    have "0 < fmod a TWO_PI + TWO_PI" "fmod a TWO_PI + TWO_PI < TWO_PI"
      using True fmod_TWO_PI_bounds[of a] by simp_all
    then show ?thesis using True fl32_range_TWO_PI unfolding t by simp
  next
    case False
    then show ?thesis using fmod_TWO_PI_bounds[of a] unfolding t by simp
  qed
qed

lemma move_loop_heading_range:
  "list_all (\<lambda>q. 0 \<le> ptheta q \<and> ptheta q \<le> TWO_PI) (fst (move_loop pf ps distance rotation))"
proof (induction ps arbitrary: pf)
  case Nil
  show ?case by simp
next
  case (Cons p ps)
  show ?case
    using moveParticle_heading_range[of pf p distance rotation]
      Cons.IH[of "snd (moveParticle pf p distance rotation)"]
    by (simp add: split_def Let_def)
qed

lemma move_loop_length: "length (fst (move_loop pf ps d r)) = length ps"
  by (induction ps arbitrary: pf) (simp_all add: split_def Let_def)

lemma updateMotion_length: "length (particles (updateMotion pf d r)) = length (particles pf)"
  by (simp add: updateMotion_def split_def Let_def move_loop_length)

subsection \<open>The weighting loops\<close>

lemma weight_loop_ok:
  "length lms \<le> length ms \<Longrightarrow> \<exists>w. weight_loop s ms lms p i w0 = Inr w"
proof (induction s ms lms p i w0 rule: weight_loop.induct)
  case (1 s ms lms p i w)
  show ?case
  proof (cases "i < length lms")
    case True
    then have "i < length ms" using "1.prems" by simp
    with True "1.IH"[OF True this refl refl refl] "1.prems" show ?thesis
      by (subst weight_loop.simps) (simp add: Let_def)
  next
    case False
    then show ?thesis by (subst weight_loop.simps) simp
  qed
qed

lemma weight_loop_fail:
  "length ms < length lms \<Longrightarrow> i \<le> length ms \<Longrightarrow> weight_loop s ms lms p i w0 = Inl OutOfBounds"
proof (induction s ms lms p i w0 rule: weight_loop.induct)
  case (1 s ms lms p i w)
  have il: "i < length lms" using "1.prems" by simp
  show ?case
  proof (cases "i < length ms")
    case True
    with il "1.IH"[OF il True refl refl refl] "1.prems" show ?thesis
      by (subst weight_loop.simps) (simp add: Let_def)
  next
    case False
    with il show ?thesis by (subst weight_loop.simps) simp
  qed
qed

lemma weight_loop_take:
  "length lms \<le> length ms \<Longrightarrow>
     weight_loop s (take (length lms) ms) lms p i w0 = weight_loop s ms lms p i w0"
proof (induction s ms lms p i w0 rule: weight_loop.induct)
  case (1 s ms lms p i w)
  show ?case
  proof (cases "i < length lms")
    case True
    then have im: "i < length ms" using "1.prems" by simp
    have "weight_loop s (take (length lms) ms) lms p i w
          = weight_loop s (take (length lms) ms) lms p (Suc i)
              (w * (gauss_norm s * exp (- ((ms ! i - sqrt ((fst (lms ! i) - px p) * (fst (lms ! i) - px p)
                   + (snd (lms ! i) - py p) * (snd (lms ! i) - py p)))
                 * (ms ! i - sqrt ((fst (lms ! i) - px p) * (fst (lms ! i) - px p)
                   + (snd (lms ! i) - py p) * (snd (lms ! i) - py p)))) / denom s)))"
      using True im by (subst weight_loop.simps) (simp add: Let_def)
    also have "\<dots> = weight_loop s ms lms p (Suc i)
              (w * (gauss_norm s * exp (- ((ms ! i - sqrt ((fst (lms ! i) - px p) * (fst (lms ! i) - px p)
                   + (snd (lms ! i) - py p) * (snd (lms ! i) - py p)))
                 * (ms ! i - sqrt ((fst (lms ! i) - px p) * (fst (lms ! i) - px p)
                   + (snd (lms ! i) - py p) * (snd (lms ! i) - py p)))) / denom s)))"
      using "1.IH"[OF True im refl refl refl] "1.prems" by simp
    also have "\<dots> = weight_loop s ms lms p i w"
      using True im by (subst (2) weight_loop.simps) (simp add: Let_def)
    finally show ?thesis .
  next
    case False
    then show ?thesis
      by (subst weight_loop.simps, subst (2) weight_loop.simps) simp
  qed
qed

lemma score_loop_Inr:
  "score_loop s ms lms ps t = Inr (ps1, t1) \<Longrightarrow>
     \<exists>L. map (likelihood s ms lms) ps = map Inr L \<and> map pweight ps1 = L
          \<and> t1 = t + sum_list L \<and> length ps1 = length ps"
proof (induction ps arbitrary: t ps1 t1)
  case Nil
  then show ?case by simp
next
  case (Cons p ps)
  from Cons.prems obtain w where w: "likelihood s ms lms p = Inr w"
    by (auto split: sum.splits)
  with Cons.prems obtain ps2 where r: "score_loop s ms lms ps (t + w) = Inr (ps2, t1)"
    and ps1: "ps1 = p\<lparr>pweight := w\<rparr> # ps2"
    by (auto split: sum.splits)
  from Cons.IH[OF r] obtain L where L: "map (likelihood s ms lms) ps = map Inr L"
    "map pweight ps2 = L" "t1 = t + w + sum_list L" "length ps2 = length ps" by blast
  show ?case
    using w ps1 L by (intro exI[of _ "w # L"]) simp
qed

lemma score_loop_ok:
  "length lms \<le> length ms \<Longrightarrow> \<exists>r. score_loop s ms lms ps t = Inr r"
proof (induction ps arbitrary: t)
  case Nil show ?case by simp
next
  case (Cons p ps)
  obtain w where w: "likelihood s ms lms p = Inr w"
    using weight_loop_ok[OF Cons.prems] unfolding likelihood_def by blast
  obtain r where "score_loop s ms lms ps (t + w) = Inr r" using Cons.IH[OF Cons.prems] by blast
  with w show ?case by (cases r) simp
qed

lemma score_loop_fail:
  "length ms < length lms \<Longrightarrow> ps \<noteq> [] \<Longrightarrow> score_loop s ms lms ps t = Inl OutOfBounds"
  by (cases ps) (simp_all add: likelihood_def weight_loop_fail)

lemma score_loop_take:
  "length lms \<le> length ms \<Longrightarrow>
     score_loop s (take (length lms) ms) lms ps t = score_loop s ms lms ps t"
  by (induction ps arbitrary: t) (simp_all add: likelihood_def weight_loop_take split: sum.splits)

lemma calculateWeights_ok:
  "length lms \<le> length ms \<Longrightarrow>
     \<exists>pf'. calculateWeights pf ms lms = Inr pf' \<and> length (particles pf') = length (particles pf)"
proof -
  assume h: "length lms \<le> length ms"
  obtain ps1 t1 where r: "score_loop (sigma_sense pf) ms lms (particles pf) 0 = Inr (ps1, t1)"
    using score_loop_ok[OF h, of "sigma_sense pf" "particles pf" 0] by (metis surj_pair)
  from score_loop_Inr[OF r] have "length ps1 = length (particles pf)" by blast
  with r show ?thesis by (simp add: calculateWeights_def)
qed

lemma calculateWeights_empty: "particles pf = [] \<Longrightarrow> calculateWeights pf ms lms = Inr pf"
  by (cases pf) (simp add: calculateWeights_def)

lemma calculateWeights_fail:
  "length ms < length lms \<Longrightarrow> particles pf \<noteq> [] \<Longrightarrow> calculateWeights pf ms lms = Inl OutOfBounds"
  by (simp add: calculateWeights_def score_loop_fail)

lemma weight_loop_forgets_weight:
  "weight_loop s ms lms (p\<lparr>pweight := v\<rparr>) i w = weight_loop s ms lms p i w"
proof (induction s ms lms p i w rule: weight_loop.induct)
  case (1 s ms lms p i w)
  show ?case
  proof (cases "i < length lms \<and> i < length ms")
    case True
    then show ?thesis
      using "1.IH"[OF _ _ refl refl refl]
      by (subst weight_loop.simps, subst (2) weight_loop.simps) (simp add: Let_def)
  next
    case False
    then show ?thesis
      by (subst weight_loop.simps, subst (2) weight_loop.simps) auto
  qed
qed

lemma score_loop_forgets_weights:
  "score_loop s ms lms (map (\<lambda>p. p\<lparr>pweight := f p\<rparr>) ps) t = score_loop s ms lms ps t"
  by (induction ps arbitrary: t)
     (simp_all add: likelihood_def weight_loop_forgets_weight split: sum.splits)

lemma calculateWeights_forgets_weights:
  "calculateWeights (pf\<lparr>particles := map (\<lambda>p. p\<lparr>pweight := f p\<rparr>) (particles pf)\<rparr>) ms lms
     = calculateWeights pf ms lms"
  by (simp add: calculateWeights_def score_loop_forgets_weights split: sum.splits prod.splits)

subsection \<open>The resampling loop\<close>

lemma pick_less: "ws \<noteq> [] \<Longrightarrow> pick ws t < length ws"
  by (induction ws t rule: pick.induct) auto

lemma resample_loop_ok:
  "ps \<noteq> [] \<Longrightarrow> length ws = length ps \<Longrightarrow> 
   \<exists>new g'. resample_loop ps ws k acc g = Inr (acc @ new, g') \<and> length new = k \<and> set new \<subseteq> set ps"
proof (induction k arbitrary: acc g)
  case 0 show ?case by simp
next
  case (Suc k)
  let ?i = "pick ws (g 0 * sum_list ws)"
  have "ws \<noteq> []" using Suc.prems by auto
  then have i: "?i < length ps" using pick_less[of ws] Suc.prems by simp
  from Suc.IH[OF Suc.prems, of "acc @ [ps ! ?i]" "advance g"]
  obtain new g' where "resample_loop ps ws k (acc @ [ps ! ?i]) (advance g) = Inr ((acc @ [ps ! ?i]) @ new, g')"
     "length new = k" "set new \<subseteq> set ps" by blast
  then show ?case using i
    by (intro exI[of _ "ps ! ?i # new"] exI[of _ g']) (simp add: discrete_distribution_def)
qed

lemma resampleParticles_ok:
  "\<exists>pf'. resampleParticles pf = Inr pf' \<and> length (particles pf') = length (particles pf)
         \<and> set (particles pf') \<subseteq> set (particles pf)"
proof (cases "particles pf = []")
  case True
  then show ?thesis by (simp add: resampleParticles_def)
next
  case False
  obtain new g' where
    "resample_loop (particles pf) (map pweight (particles pf)) (length (particles pf)) [] (gen pf)
       = Inr ([] @ new, g')" "length new = length (particles pf)" "set new \<subseteq> set (particles pf)"
    using resample_loop_ok[OF False, of "map pweight (particles pf)" "length (particles pf)" "[]" "gen pf"]
    by auto
  then show ?thesis by (simp add: resampleParticles_def)
qed

subsection \<open>The filter step\<close>

lemma updateAndEstimate_ok:
  assumes "length lms \<le> length ms \<or> particles pf = []"
  shows "\<exists>est pf'. updateAndEstimate pf d r ms lms = Inr (est, pf')
           \<and> length (particles pf') = length (particles pf)"
proof -
  let ?pf1 = "updateMotion pf d r"
  have l1: "length (particles ?pf1) = length (particles pf)" by (rule updateMotion_length)
  obtain pf2 where c: "calculateWeights ?pf1 ms lms = Inr pf2"
      and l2: "length (particles pf2) = length (particles ?pf1)"
  proof (cases "length lms \<le> length ms")
    case True
    then show ?thesis using calculateWeights_ok[OF True, of ?pf1] that by blast
  next
    case False
    then have "particles ?pf1 = []" using assms l1 by simp
    then show ?thesis using calculateWeights_empty[of ?pf1 ms lms] that by simp
  qed
  obtain pf3 where r: "resampleParticles pf2 = Inr pf3"
      and l3: "length (particles pf3) = length (particles pf2)"
    using resampleParticles_ok[of pf2] by blast
  show ?thesis
    using c r l1 l2 l3 by (simp add: updateAndEstimate_def Let_def)
qed

lemma updateAndEstimate_fail:
  assumes "length ms < length lms" "particles pf \<noteq> []"
  shows "updateAndEstimate pf d r ms lms = Inl OutOfBounds"
proof -
  have "particles (updateMotion pf d r) \<noteq> []"
    using updateMotion_length[of pf d r] assms(2) by (metis length_0_conv)
  then show ?thesis
    using calculateWeights_fail[OF assms(1), of "updateMotion pf d r"]
    by (simp add: updateAndEstimate_def Let_def)
qed

lemma half_size_le: "real (n div 2) \<le> real n / 2"
  by (cases "even n") (auto elim!: evenE oddE)

lemma half_size_even: "even n \<Longrightarrow> real (n div 2) = real n / 2"
  by (auto elim!: evenE)

lemma updateAndEstimate_keeps_above_half:
  assumes "calculateWeights (updateMotion pf d r) ms lms = Inr pf2"
    and "real (length (particles pf2)) / 2 \<le> Neff (particles pf2)"
  shows "updateAndEstimate pf d r ms lms = Inr (estimateState pf2, pf2)"
proof -
  have "\<not> Neff (particles pf2) < real (length (particles pf2) div 2)"
    using assms(2) half_size_le[of "length (particles pf2)"] by linarith
  then show ?thesis using assms(1) by (simp add: updateAndEstimate_def Let_def)
qed

lemma updateAndEstimate_resamples_even:
  assumes "calculateWeights (updateMotion pf d r) ms lms = Inr pf2"
    and "even (length (particles pf2))"
    and "Neff (particles pf2) < real (length (particles pf2)) / 2"
  shows "updateAndEstimate pf d r ms lms
           = (case resampleParticles pf2 of
                Inl e \<Rightarrow> Inl e
              | Inr pf3 \<Rightarrow> Inr (estimateState pf3, pf3))"
  using assms by (simp add: updateAndEstimate_def Let_def half_size_even)

subsection \<open>The circular mean\<close>






subsection \<open>The three-particle state\<close>

lemma exp_neg_nine_half_bounds: "1 / 243 \<le> exp (- (9 / 2) :: real) \<and> exp (- (9 / 2) :: real) \<le> 1 / 15"
proof -
  have "exp (9 / 2 :: real) = exp (of_nat 3 * (3 / 2))" by simp
  also have "\<dots> = exp (3 / 2 :: real) ^ 3" by (rule exp_of_nat_mult)
  finally have e3: "exp (9 / 2 :: real) = exp (3 / 2) ^ 3" .
  have "(5 / 2 :: real) \<le> exp (3 / 2)" using exp_ge_add_one_self[of "3 / 2 :: real"] by simp
  then have "(5 / 2 :: real) ^ 3 \<le> exp (3 / 2) ^ 3" by (intro power_mono) simp_all
  then have lo: "(15 :: real) \<le> exp (9 / 2)" unfolding e3 by (simp add: power3_eq_cube)
  have "exp (5 :: real) = exp (of_nat 5 * 1)" by simp
  also have "\<dots> = exp (1 :: real) ^ 5" by (rule exp_of_nat_mult)
  also have "\<dots> \<le> 3 ^ 5" by (intro power_mono exp_le) simp
  finally have "exp (5 :: real) \<le> 243" by simp
  moreover have "exp (9 / 2 :: real) \<le> exp 5" by simp
  ultimately have hi: "exp (9 / 2 :: real) \<le> 243" by linarith
  have inv: "exp (- (9 / 2) :: real) = 1 / exp (9 / 2)" by (simp add: exp_minus field_simps)
  have p: "0 < exp (9 / 2 :: real)" by simp
  show ?thesis unfolding inv using lo hi p by (simp add: field_simps)
qed

lemma sqrt_nine: "sqrt 9 = 3"
  using real_sqrt_abs[of 3] by simp

lemma Neff_band:
  fixes e :: real
  assumes lo: "1 / 243 \<le> e" and hi: "e \<le> 1 / 15"
  defines "s \<equiv> (1 / (1 + 2 * e)) * (1 / (1 + 2 * e)) + (e / (1 + 2 * e)) * (e / (1 + 2 * e))
                  + (e / (1 + 2 * e)) * (e / (1 + 2 * e)) + 1 / 1000000"
  shows "1 / s < 3 / 2" and "\<not> 1 / s < 1"
proof -
  have e0: "0 < e" using lo by linarith
  define d where "d = (1 + 2 * e) * (1 + 2 * e)"
  define q where "q = e * e"
  have d0: "0 < d" using e0 by (simp add: d_def)
  have ee: "q \<le> e / 15" using mult_left_mono[of e "1 / 15" e] hi e0 by (simp add: q_def)
  have ee0: "0 \<le> q" by (simp add: q_def)
  have dx: "d = 1 + 4 * e + 4 * q" by (simp add: d_def q_def algebra_simps)
  have "s = 1 / d + q / d + q / d + 1 / 1000000"
    by (simp add: s_def d_def q_def)
  also have "\<dots> = (1 + 2 * q) / d + 1 / 1000000"
    by (simp add: add_divide_distrib)
  finally have s: "s = (1 + 2 * q) / d + 1 / 1000000" .
  have "2 * d < 3 * (1 + 2 * q)" using ee ee0 hi unfolding dx by argo
  then have "2 / 3 < (1 + 2 * q) / d" using d0 by (simp add: field_simps)
  then have a: "2 / 3 < s" unfolding s by linarith
  have "d \<le> 2" using ee hi e0 unfolding dx by argo
  then have "(1 + 2 * q) + d / 1000000 \<le> d" using lo ee0 unfolding dx by argo
  then have "(1 + 2 * q) / d + 1 / 1000000 \<le> 1" using d0 by (simp add: field_simps)
  then have b: "s \<le> 1" unfolding s .
  have s0: "0 < s" using a by linarith
  show "1 / s < 3 / 2" using a s0 by (simp add: field_simps)
  show "\<not> 1 / s < 1" using b s0 by (simp add: field_simps)
qed

lemma three_particles_moved: "updateMotion three_particles 1 0 = three_particles\<lparr>particles := [\<lparr>px = 1, py = 0, ptheta = 0, pweight = 1 / 3\<rparr>,
                   \<lparr>px = 4, py = 0, ptheta = 0, pweight = 1 / 3\<rparr>,
                   \<lparr>px = 4, py = 0, ptheta = 0, pweight = 1 / 3\<rparr>]\<rparr>"
  by (simp add: three_particles_def updateMotion_def moveParticle_def normal_distribution_def advance_def
        Let_def fmod_def TWO_PI_def)

lemma likelihood_near: "likelihood 1 [0] [(1, 0)] \<lparr>px = 1, py = 0, ptheta = 0, pweight = w\<rparr> = Inr (gauss_norm 1)"
  by (simp add: likelihood_def weight_loop.simps Let_def)

lemma likelihood_far: "likelihood 1 [0] [(1, 0)] \<lparr>px = 4, py = 0, ptheta = 0, pweight = w\<rparr>
     = Inr (gauss_norm 1 * exp (- (9 / 2)))"
  by (simp add: likelihood_def weight_loop.simps Let_def sqrt_nine denom_def)

lemma normalised_weights:
  fixes g e :: real
  assumes "0 < g" "0 < e"
  shows "g / (g + g * e + g * e) = 1 / (1 + 2 * e)"
    and "g * e / (g + g * e + g * e) = e / (1 + 2 * e)"
    and "0 < g + g * e + g * e"
proof -
  have t: "g + g * e + g * e = g * (1 + 2 * e)" by (simp add: algebra_simps)
  show "g / (g + g * e + g * e) = 1 / (1 + 2 * e)" unfolding t using assms by simp
  show "g * e / (g + g * e + g * e) = e / (1 + 2 * e)" unfolding t using assms by simp
  show "0 < g + g * e + g * e" unfolding t using assms by simp
qed

lemma three_particles_weighted: "calculateWeights (updateMotion three_particles 1 0) [0] [(1, 0)]
   = Inr (three_particles\<lparr>particles :=
       [\<lparr>px = 1, py = 0, ptheta = 0, pweight = 1 / (1 + 2 * exp (- (9 / 2)))\<rparr>,
        \<lparr>px = 4, py = 0, ptheta = 0, pweight = exp (- (9 / 2)) / (1 + 2 * exp (- (9 / 2)))\<rparr>,
        \<lparr>px = 4, py = 0, ptheta = 0, pweight = exp (- (9 / 2)) / (1 + 2 * exp (- (9 / 2)))\<rparr>]\<rparr>)"
proof -
  have g: "0 < gauss_norm 1" by (simp add: gauss_norm_def)
  have e: "0 < exp (- (9 / 2) :: real)" by simp
  show ?thesis
    unfolding three_particles_moved using normalised_weights[OF g e]
    by (simp add: calculateWeights_def likelihood_near likelihood_far three_particles_def)
qed

section \<open>The claims\<close>

subsection \<open>Construction and initialisation\<close>

text \<open>
  C9. The \<^verbatim>\<open>Robot\<close> constructor ignores its \<open>sigma_pos\<close>, \<open>sigma_rot\<close> and \<open>sigma_sense\<close>
  arguments: whatever the caller passes, the robot's three noise deviations are the
  constants 0.1, 0.05 and 0.05, so two robots built with different deviations and the same
  pose are equal.
\<close>

theorem Robot_ctor_ignores_sigmas:
  "robot_sigma_pos (Robot_ctor sp sr ss x0 y0 t0 g) = 1 / 10
   \<and> robot_sigma_rot (Robot_ctor sp sr ss x0 y0 t0 g) = 5 / 100
   \<and> robot_sigma_sense (Robot_ctor sp sr ss x0 y0 t0 g) = 5 / 100
   \<and> Robot_ctor sp sr ss x0 y0 t0 g = Robot_ctor sp' sr' ss' x0 y0 t0 g"
  by (simp add: Robot_ctor_def)

text \<open>
  C10. \<^verbatim>\<open>initializeParticles\<close> appends: a filter that holds \<open>M\<close> particles holds
  \<open>M + N\<close> of them after a call with count \<open>N\<close> (the loop runs \<open>nat N\<close> times), the first
  \<open>M\<close> being the old ones; initialising a fresh filter twice with the same count leaves
  twice that many particles.
\<close>

theorem initializeParticles_appends:
  "length (particles (initializeParticles a b c n pf)) = length (particles pf) + nat n
   \<and> take (length (particles pf)) (particles (initializeParticles a b c n pf)) = particles pf
   \<and> length (particles (initializeParticles a' b' c' n
               (initializeParticles a b c n (ParticleFilter_ctor sp sr ss g)))) = 2 * nat n"
  by (simp add: initializeParticles_def init_loop_length init_loop_take ParticleFilter_ctor_def)

text \<open>
  C5, as the code has it. A count \<open>N \<le> 0\<close> is not rejected: the call returns with the
  filter exactly as it was, no particle added, so on a freshly constructed filter the
  population stays empty, whatever deviations (negative ones included) the constructor
  was given.
\<close>

theorem initializeParticles_nonpositive_no_error:
  assumes "n \<le> 0"
  shows "initializeParticles a b c n pf = pf
         \<and> particles (initializeParticles a b c n (ParticleFilter_ctor sp sr ss g)) = []"
  using assms by (simp add: initializeParticles_def ParticleFilter_ctor_def)

theorem initializeParticles_nonpositive_no_error_witness:
  "(- 3 :: int) \<le> 0
   \<and> initializeParticles 1 1 0 (- 3) (ParticleFilter_ctor (1 / 10) (5 / 100) (3 / 10) (\<lambda>i. 0))
       = ParticleFilter_ctor (1 / 10) (5 / 100) (3 / 10) (\<lambda>i. 0)
   \<and> particles (initializeParticles 1 1 0 (- 3) (ParticleFilter_ctor (- 1) (- 1) (- 1) (\<lambda>i. 0)))
       = []"
proof -
  have h: "(- 3 :: int) \<le> 0" by simp
  show ?thesis
    using h initializeParticles_nonpositive_no_error
              [OF h, of 1 1 0 "ParticleFilter_ctor (1 / 10) (5 / 100) (3 / 10) (\<lambda>i. 0)"
                 "- 1" "- 1" "- 1" "\<lambda>i. 0"]
    by simp
qed

text \<open>
  C5 as stated fails: with count 0, and with count \<open>-3\<close>, initialisation returns the empty
  population; with three negative deviations and count 2 it returns two particles.
\<close>

theorem initializeParticles_nonpositive_counterexample:
  "particles (initializeParticles 1 1 0 0
      (ParticleFilter_ctor (1 / 10) (5 / 100) (3 / 10) (\<lambda>i. 0))) = []
   \<and> particles (initializeParticles 1 1 0 (- 3)
      (ParticleFilter_ctor (1 / 10) (5 / 100) (3 / 10) (\<lambda>i. 0))) = []
   \<and> length (particles (initializeParticles 1 1 0 2
      (ParticleFilter_ctor (- 1) (- 1) (- 1) (\<lambda>i. 0)))) = 2"
  by (simp add: initializeParticles_def ParticleFilter_ctor_def normal_distribution_def
        numeral_2_eq_2)

subsection \<open>Prediction\<close>

text \<open>
  C8. With both process-noise deviations 0, moving the particle at pose \<open>(0, 0, 0)\<close> with
  control \<open>(1, 0)\<close> gives pose \<open>(1, 0, 0)\<close>, and with control \<open>(0, pi / 2)\<close> gives
  \<open>(0, 0, pi / 2)\<close>, as claimed. The wrap into \<open>[0, 2 pi)\<close> fails at the control
  \<open>(0, - 2 ^ (- 34))\<close>: the remainder of \<^verbatim>\<open>fmod\<close> is \<open>- 2 ^ (- 34)\<close>, adding \<open>TWO_PI\<close> to
  it rounds to \<open>TWO_PI\<close> itself, and \<open>TWO_PI\<close> is above \<open>2 pi\<close>. What every move does
  keep is a heading in the closed interval from 0 to \<open>TWO_PI\<close>.
\<close>

theorem moveParticle_heading_reaches_TWO_PI:
  "fst (moveParticle (pf\<lparr>sigma_pos := 0, sigma_rot := 0\<rparr>)
          \<lparr>px = 0, py = 0, ptheta = 0, pweight = w\<rparr> 1 0)
     = \<lparr>px = 1, py = 0, ptheta = 0, pweight = w\<rparr>
   \<and> fst (moveParticle (pf\<lparr>sigma_pos := 0, sigma_rot := 0\<rparr>)
          \<lparr>px = 0, py = 0, ptheta = 0, pweight = w\<rparr> 0 (pi / 2))
     = \<lparr>px = 0, py = 0, ptheta = pi / 2, pweight = w\<rparr>
   \<and> fst (moveParticle (pf\<lparr>sigma_pos := 0, sigma_rot := 0\<rparr>)
          \<lparr>px = 0, py = 0, ptheta = 0, pweight = w\<rparr> 0 (- (1 / 2 ^ 34)))
     = \<lparr>px = 0, py = 0, ptheta = TWO_PI, pweight = w\<rparr>
   \<and> 2 * pi < TWO_PI
   \<and> 0 \<le> ptheta (fst (moveParticle pf p distance rotation))
   \<and> ptheta (fst (moveParticle pf p distance rotation)) \<le> TWO_PI"
proof -
  have z: "fmod 0 TWO_PI = 0" by (simp add: fmod_def)
  have m1: "fst (moveParticle (pf\<lparr>sigma_pos := 0, sigma_rot := 0\<rparr>)
          \<lparr>px = 0, py = 0, ptheta = 0, pweight = w\<rparr> 1 0)
     = \<lparr>px = 1, py = 0, ptheta = 0, pweight = w\<rparr>"
    by (simp add: moveParticle_def normal_distribution_def Let_def z)
  have "pi / 2 < TWO_PI" using pi_less_4 by (simp add: TWO_PI_def)
  then have h: "fmod (pi / 2) TWO_PI = pi / 2" by (intro fmod_small) simp_all
  have m2: "fst (moveParticle (pf\<lparr>sigma_pos := 0, sigma_rot := 0\<rparr>)
          \<lparr>px = 0, py = 0, ptheta = 0, pweight = w\<rparr> 0 (pi / 2))
     = \<lparr>px = 0, py = 0, ptheta = pi / 2, pweight = w\<rparr>"
    by (simp add: moveParticle_def normal_distribution_def Let_def h)
  have "- TWO_PI < - (1 / 2 ^ 34)" by (simp add: TWO_PI_def)
  then have n: "fmod (- (1 / 2 ^ 34)) TWO_PI = - (1 / 2 ^ 34)"
    by (intro fmod_small_neg) simp_all
  have m3: "fst (moveParticle (pf\<lparr>sigma_pos := 0, sigma_rot := 0\<rparr>)
          \<lparr>px = 0, py = 0, ptheta = 0, pweight = w\<rparr> 0 (- (1 / 2 ^ 34)))
     = \<lparr>px = 0, py = 0, ptheta = TWO_PI, pweight = w\<rparr>"
    using n fl32_below_TWO_PI
    by (simp add: moveParticle_def normal_distribution_def Let_def)
  show ?thesis
    using m1 m2 m3 two_pi_less_TWO_PI moveParticle_heading_range[of pf p distance rotation]
    by blast
qed

subsection \<open>Weighting\<close>

text \<open>
  C4, as the code has it. \<^verbatim>\<open>calculateWeights\<close> never compares the two lengths. With
  more measurements than landmarks it completes and overwrites every weight: the result
  is that of the call on the measurement vector truncated to \<open>length landmarks\<close>, and it
  does not depend on the weights the particles had before. With fewer measurements than
  landmarks it reads \<^verbatim>\<open>measurements[i]\<close> past the end as soon as there is a particle to
  score.
\<close>

theorem calculateWeights_length_mismatch:
  assumes "length ms \<noteq> length lms"
  shows "if length lms < length ms
         then (\<exists>pf'. calculateWeights pf ms lms = Inr pf')
              \<and> calculateWeights pf ms lms = calculateWeights pf (take (length lms) ms) lms
              \<and> (\<forall>f. calculateWeights
                         (pf\<lparr>particles := map (\<lambda>p. p\<lparr>pweight := f p\<rparr>) (particles pf)\<rparr>)
                         ms lms
                       = calculateWeights pf ms lms)
         else calculateWeights pf ms lms = (if particles pf = [] then Inr pf else Inl OutOfBounds)"
proof (cases "length lms < length ms")
  case True
  then have le: "length lms \<le> length ms" by simp
  have "calculateWeights pf ms lms = calculateWeights pf (take (length lms) ms) lms"
    by (simp add: calculateWeights_def score_loop_take[OF le])
  with True calculateWeights_ok[OF le, of pf] calculateWeights_forgets_weights[of _ pf ms lms]
  show ?thesis by auto
next
  case False
  with assms have "length ms < length lms" by simp
  with False calculateWeights_fail[of ms lms pf] calculateWeights_empty[of pf ms lms]
  show ?thesis by auto
qed

theorem calculateWeights_length_mismatch_witness:
  "length [1, 9 :: real] \<noteq> length [(1 :: real, 0 :: real)]
   \<and> calculateWeights
        \<lparr>sigma_pos = 1 / 10, sigma_rot = 5 / 100, sigma_sense = 1,
         particles = [\<lparr>px = 0, py = 0, ptheta = 0, pweight = 1 / 4\<rparr>], gen = (\<lambda>i. 0)\<rparr>
        [1, 9] [(1, 0)]
     = calculateWeights
        \<lparr>sigma_pos = 1 / 10, sigma_rot = 5 / 100, sigma_sense = 1,
         particles = [\<lparr>px = 0, py = 0, ptheta = 0, pweight = 1 / 4\<rparr>], gen = (\<lambda>i. 0)\<rparr>
        [1] [(1, 0)]
   \<and> calculateWeights
        \<lparr>sigma_pos = 1 / 10, sigma_rot = 5 / 100, sigma_sense = 1,
         particles = [\<lparr>px = 0, py = 0, ptheta = 0, pweight = 3 / 4\<rparr>], gen = (\<lambda>i. 0)\<rparr>
        [1, 9] [(1, 0)]
     = calculateWeights
        \<lparr>sigma_pos = 1 / 10, sigma_rot = 5 / 100, sigma_sense = 1,
         particles = [\<lparr>px = 0, py = 0, ptheta = 0, pweight = 1 / 4\<rparr>], gen = (\<lambda>i. 0)\<rparr>
        [1, 9] [(1, 0)]"
proof -
  let ?pf = "\<lparr>sigma_pos = 1 / 10, sigma_rot = 5 / 100, sigma_sense = 1,
         particles = [\<lparr>px = 0, py = 0, ptheta = 0, pweight = 1 / 4\<rparr>], gen = (\<lambda>i. 0 :: real)\<rparr>"
  have h: "length [1, 9 :: real] \<noteq> length [(1 :: real, 0 :: real)]" by simp
  have a: "calculateWeights ?pf [1, 9] [(1, 0)] = calculateWeights ?pf [1] [(1, 0)]"
    and b: "\<forall>f. calculateWeights
                  (?pf\<lparr>particles := map (\<lambda>p. p\<lparr>pweight := f p\<rparr>) (particles ?pf)\<rparr>)
                  [1, 9] [(1, 0)]
                = calculateWeights ?pf [1, 9] [(1, 0)]"
    using calculateWeights_length_mismatch[OF h, of ?pf] by simp_all
  from b have "calculateWeights
                  (?pf\<lparr>particles := map (\<lambda>p. p\<lparr>pweight := (\<lambda>q. 3 / 4) p\<rparr>) (particles ?pf)\<rparr>)
                  [1, 9] [(1, 0)]
                = calculateWeights ?pf [1, 9] [(1, 0)]"
    by (rule spec)
  with h a show ?thesis by simp
qed

text \<open>
  C4 as stated fails: with two measurements and one landmark the call completes, and the
  particle's weight, \<open>1 / 4\<close> before, is 1 after.
\<close>

theorem calculateWeights_length_mismatch_counterexample:
  "length [1, 9 :: real] \<noteq> length [(1 :: real, 0 :: real)]
   \<and> calculateWeights
        \<lparr>sigma_pos = 1 / 10, sigma_rot = 5 / 100, sigma_sense = 1,
         particles = [\<lparr>px = 0, py = 0, ptheta = 0, pweight = 1 / 4\<rparr>], gen = (\<lambda>i. 0)\<rparr>
        [1, 9] [(1, 0)]
     = Inr \<lparr>sigma_pos = 1 / 10, sigma_rot = 5 / 100, sigma_sense = 1,
         particles = [\<lparr>px = 0, py = 0, ptheta = 0, pweight = 1\<rparr>], gen = (\<lambda>i. 0)\<rparr>"
proof -
  have g: "0 < gauss_norm 1" by (simp add: gauss_norm_def)
  have "likelihood 1 [1, 9] [(1, 0)] \<lparr>px = 0, py = 0, ptheta = 0, pweight = 1 / 4\<rparr>
          = Inr (gauss_norm 1)"
    by (simp add: likelihood_def weight_loop.simps Let_def)
  then show ?thesis using g by (simp add: calculateWeights_def)
qed

subsection \<open>Resampling and the population size\<close>

text \<open>
  C7. \<^verbatim>\<open>resampleParticles\<close> always returns, with as many particles as it was given,
  each of them equal (pose and weight) to a particle of the input population. The other
  operations keep the size too: \<^verbatim>\<open>updateMotion\<close> always, and \<^verbatim>\<open>calculateWeights\<close> and
  \<^verbatim>\<open>updateAndEstimate\<close> whenever they do not read past the end of a measurement vector
  shorter than the landmark vector.
\<close>

theorem resampleParticles_preserves_size:
  "(\<exists>pf'. resampleParticles pf = Inr pf' \<and> length (particles pf') = length (particles pf)
          \<and> set (particles pf') \<subseteq> set (particles pf))
   \<and> length (particles (updateMotion pf d r)) = length (particles pf)
   \<and> (if length ms < length lms \<and> particles pf \<noteq> []
       then calculateWeights pf ms lms = Inl OutOfBounds
       else \<exists>pf'. calculateWeights pf ms lms = Inr pf'
                 \<and> length (particles pf') = length (particles pf))
   \<and> (if length ms < length lms \<and> particles pf \<noteq> []
       then updateAndEstimate pf d r ms lms = Inl OutOfBounds
       else \<exists>est pf'. updateAndEstimate pf d r ms lms = Inr (est, pf')
                 \<and> length (particles pf') = length (particles pf))"
proof -
  have c: "if length ms < length lms \<and> particles pf \<noteq> []
       then calculateWeights pf ms lms = Inl OutOfBounds
       else \<exists>pf'. calculateWeights pf ms lms = Inr pf'
                 \<and> length (particles pf') = length (particles pf)"
    using calculateWeights_fail[of ms lms pf] calculateWeights_ok[of lms ms pf]
      calculateWeights_empty[of pf ms lms]
    by (cases "particles pf = []"; cases "length ms < length lms") simp_all
  have u: "if length ms < length lms \<and> particles pf \<noteq> []
       then updateAndEstimate pf d r ms lms = Inl OutOfBounds
       else \<exists>est pf'. updateAndEstimate pf d r ms lms = Inr (est, pf')
                 \<and> length (particles pf') = length (particles pf)"
    using updateAndEstimate_fail[of ms lms pf d r] updateAndEstimate_ok[of lms ms pf d r]
    by (cases "particles pf = []"; cases "length ms < length lms") simp_all
  show ?thesis
    using resampleParticles_ok[of pf] updateMotion_length[of pf d r] c u by blast
qed

text \<open>
  C1 at a population of three. After the motion update with control \<open>(1, 0)\<close> and the
  weighting against the measurement \<open>[0]\<close> of the landmark \<open>(1, 0)\<close>, the effective
  sample size is below \<open>N / 2 = 3 / 2\<close>, but not below the integer quotient
  \<open>3 div 2 = 1\<close> that the code compares it with: \<^verbatim>\<open>updateAndEstimate\<close> returns the
  weighted population as it is, although resampling it would have changed it.
\<close>

theorem updateAndEstimate_odd_population:
  "\<exists>pf2. calculateWeights (updateMotion three_particles 1 0) [0] [(1, 0)] = Inr pf2
        \<and> length (particles pf2) = 3
        \<and> Neff (particles pf2) < 3 / 2
        \<and> \<not> Neff (particles pf2) < real (length (particles pf2) div 2)
        \<and> updateAndEstimate three_particles 1 0 [0] [(1, 0)] = Inr (estimateState pf2, pf2)
        \<and> resampleParticles pf2 \<noteq> Inr pf2"
proof -
  define e :: real where "e = exp (- (9 / 2))"
  define pf2 where "pf2 = three_particles\<lparr>particles :=
       [\<lparr>px = 1, py = 0, ptheta = 0, pweight = 1 / (1 + 2 * e)\<rparr>,
        \<lparr>px = 4, py = 0, ptheta = 0, pweight = e / (1 + 2 * e)\<rparr>,
        \<lparr>px = 4, py = 0, ptheta = 0, pweight = e / (1 + 2 * e)\<rparr>]\<rparr>"
  have b: "1 / 243 \<le> e" "e \<le> 1 / 15"
    using exp_neg_nine_half_bounds by (simp_all add: e_def)
  have e0: "0 < e" by (simp add: e_def)
  have c: "calculateWeights (updateMotion three_particles 1 0) [0] [(1, 0)] = Inr pf2"
    unfolding pf2_def e_def by (rule three_particles_weighted)
  have l: "length (particles pf2) = 3" by (simp add: pf2_def)
  have n: "Neff (particles pf2)
           = 1 / ((1 / (1 + 2 * e)) * (1 / (1 + 2 * e)) + (e / (1 + 2 * e)) * (e / (1 + 2 * e))
                  + (e / (1 + 2 * e)) * (e / (1 + 2 * e)) + 1 / 1000000)"
    by (simp add: Neff_def pf2_def)
  have lt: "Neff (particles pf2) < 3 / 2" unfolding n by (rule Neff_band(1)[OF b])
  have ge: "\<not> Neff (particles pf2) < 1" unfolding n by (rule Neff_band(2)[OF b])
  have u: "updateAndEstimate three_particles 1 0 [0] [(1, 0)] = Inr (estimateState pf2, pf2)"
    using ge by (simp add: updateAndEstimate_def c l Let_def)
  have a0: "0 < 1 / (1 + 2 * e)" using e0 by simp
  have r: "resampleParticles pf2 = Inr (pf2\<lparr>particles :=
       [\<lparr>px = 1, py = 0, ptheta = 0, pweight = 1 / (1 + 2 * e)\<rparr>,
        \<lparr>px = 1, py = 0, ptheta = 0, pweight = 1 / (1 + 2 * e)\<rparr>,
        \<lparr>px = 1, py = 0, ptheta = 0, pweight = 1 / (1 + 2 * e)\<rparr>]\<rparr>)"
    using a0 by (simp add: resampleParticles_def pf2_def three_particles_def discrete_distribution_def advance_def)
  have "resampleParticles pf2 \<noteq> Inr pf2" unfolding r by (simp add: pf2_def three_particles_def)
  moreover have "\<not> Neff (particles pf2) < real (length (particles pf2) div 2)"
    using ge by (simp add: l)
  ultimately show ?thesis using c l lt u by blast
qed

subsection \<open>Estimation\<close>




text \<open>
  C6, as the code has it. \<^verbatim>\<open>estimateState\<close> has no check and no error: on an empty
  population it divides by the size 0 and returns the NaN vector, and that is the only
  case in which it does.
\<close>

theorem estimateState_empty_is_NaN:
  "(estimateState pf = NaNPose) = (particles pf = [])"
  by (simp add: estimateState_def Let_def)

text \<open>
  C6 as stated fails: on the freshly constructed filter, whose population is empty,
  \<^verbatim>\<open>estimateState\<close> returns the NaN vector.
\<close>

theorem estimateState_empty_counterexample:
  "estimateState (ParticleFilter_ctor (1 / 10) (5 / 100) (3 / 10) (\<lambda>i. 0)) = NaNPose"
  by (simp add: estimateState_def ParticleFilter_ctor_def)

end
